theory Spec2Isabelle
  imports Complex_Main
begin

section \<open>Strings of the host language\<close>

text \<open>
  A JavaScript string is a sequence of UTF-16 code units. The extraction code compares,
  searches and measures strings by code unit (\<^verbatim>\<open>includes\<close>, \<^verbatim>\<open>length\<close>, regular
  expressions without the \<^verbatim>\<open>u\<close> flag), so a string is modelled as the list of its code
  units. \<open>lit\<close> embeds an ASCII literal; characters beyond ASCII are written by their
  code unit.
\<close>

type_synonym ustring = "nat list"

definition lit :: "string \<Rightarrow> ustring" where
  "lit s = map of_char s"

text \<open>
  \<^verbatim>\<open>String.prototype.toLowerCase\<close>. The letters of Basic Latin and of the Latin-1
  Supplement (\<open>A\<close>-\<open>Z\<close>, U+00C0-U+00D6, U+00D8-U+00DE) are one code unit each and map to
  the code unit 32 positions later. Five code points beyond U+00FF have a lower case
  that holds a code unit up to U+00FF: U+0130 (to \<open>i\<close> and U+0307), U+0178 (to U+00FF),
  U+1E9E (to U+00DF), U+212A (to \<open>k\<close>) and U+212B (to U+00E5). Every other code point
  beyond U+00FF is mapped by the Unicode case table to code units beyond U+00FF, never
  to none, and these are not reproduced: such a code unit is left as it is. The code
  looks in lower-cased text for code units up to U+00FF, for white space, for the en dash
  (U+2013) and for the euro sign (U+20AC), which have no case and are the lower case of
  no other code point, and it returns no lower-cased text.
\<close>

definition lowerUnit :: "nat \<Rightarrow> ustring" where
  "lowerUnit c =
     (if (65 \<le> c \<and> c \<le> 90) \<or> (192 \<le> c \<and> c \<le> 214) \<or> (216 \<le> c \<and> c \<le> 222)
      then [c + 32]
      else if c = 304 then [105, 775]
      else if c = 376 then [255]
      else if c = 7838 then [223]
      else if c = 8490 then [107]
      else if c = 8491 then [229]
      else [c])"

definition toLowerCase :: "ustring \<Rightarrow> ustring" where
  "toLowerCase s = concat (map lowerUnit s)"

text \<open>
  The flag \<^verbatim>\<open>i\<close> of a regular expression without the flag \<^verbatim>\<open>u\<close>: a letter of Basic
  Latin in the pattern matches itself and its other case, and no code unit from U+0080
  on matches it. So such a pattern is matched against the text with \<open>A\<close>-\<open>Z\<close> lowered.
\<close>

definition asciiLower :: "nat \<Rightarrow> nat" where
  "asciiLower c = (if 65 \<le> c \<and> c \<le> 90 then c + 32 else c)"

text \<open>\<^verbatim>\<open>s.startsWith(p)\<close> and \<^verbatim>\<open>s.includes(p)\<close>.\<close>

fun startsWith :: "'a list \<Rightarrow> 'a list \<Rightarrow> bool" where
  "startsWith s [] = True"
| "startsWith [] (p # ps) = False"
| "startsWith (c # cs) (p # ps) = (c = p \<and> startsWith cs ps)"

fun "includes" :: "'a list \<Rightarrow> 'a list \<Rightarrow> bool" where
  "includes [] p = (p = [])"
| "includes (c # cs) p = (startsWith (c # cs) p \<or> includes cs p)"

text \<open>
  The class \<^verbatim>\<open>\s\<close> of regular expressions, which is also what \<^verbatim>\<open>trim\<close> strips:
  the white space and line terminator code points of ECMAScript.
\<close>

definition isSpace :: "nat \<Rightarrow> bool" where
  "isSpace c \<longleftrightarrow>
     (9 \<le> c \<and> c \<le> 13) \<or> c = 32 \<or> c = 160 \<or> c = 5760 \<or> (8192 \<le> c \<and> c \<le> 8202)
     \<or> c = 8232 \<or> c = 8233 \<or> c = 8239 \<or> c = 8287 \<or> c = 12288 \<or> c = 65279"

definition trimStart :: "ustring \<Rightarrow> ustring" where
  "trimStart s = dropWhile isSpace s"

definition trimEnd :: "ustring \<Rightarrow> ustring" where
  "trimEnd s = rev (dropWhile isSpace (rev s))"

definition trim :: "ustring \<Rightarrow> ustring" where
  "trim s = trimEnd (trimStart s)"

section \<open>Text heuristics\<close>

subsection \<open>Remote-type detector\<close>

datatype remoteType = onsite | hybrid | remote | unknown

text \<open>The words \<^verbatim>\<open>teletravail\<close> and \<^verbatim>\<open>presentiel\<close>, written in the source with e-acute (U+00E9, code unit 233) in place of the first two and the first \<open>e\<close>.\<close>

definition teletravail :: ustring where
  "teletravail = lit ''t'' @ [233] @ lit ''l'' @ [233] @ lit ''travail''"

definition presentiel :: ustring where
  "presentiel = lit ''pr'' @ [233] @ lit ''sentiel''"

text \<open>\<^verbatim>\<open>detectRemoteType\<close> of \<^verbatim>\<open>base.ts\<close>: three tests in sequence on the lower-cased text.\<close>

definition detectRemoteType :: "ustring \<Rightarrow> remoteType" where
  "detectRemoteType text =
     (let lower = toLowerCase text in
      if includes lower (lit ''full remote'') \<or> includes lower (lit ''100% remote'')
         \<or> includes lower (teletravail @ lit '' complet'') then remote
      else if includes lower (lit ''hybrid'') \<or> includes lower (lit ''hybride'')
         \<or> includes lower (teletravail @ lit '' partiel'') then hybrid
      else if includes lower (lit ''on-site'') \<or> includes lower (lit ''sur site'')
         \<or> includes lower presentiel then onsite
      else unknown)"

text \<open>The three rules as the specification lists them: the words of each rule.\<close>

definition remoteWords :: "ustring list" where
  "remoteWords = [lit ''full remote'', lit ''100% remote'', teletravail @ lit '' complet'']"

definition hybridWords :: "ustring list" where
  "hybridWords = [lit ''hybrid'', lit ''hybride'', teletravail @ lit '' partiel'']"

definition onsiteWords :: "ustring list" where
  "onsiteWords = [lit ''on-site'', lit ''sur site'', presentiel]"

definition containsAny :: "ustring \<Rightarrow> ustring list \<Rightarrow> bool" where
  "containsAny s ws = list_ex (includes s) ws"

subsection \<open>Salary parser\<close>

datatype period = hour | day | month | year

text \<open>
  The \<^verbatim>\<open>salary\<close> object of a job offer. Every field is optional in the declared type.
  Amounts are JavaScript numbers; they are modelled as exact reals (the parser only
  produces them from decimal digits by \<^verbatim>\<open>parseInt\<close> and a multiplication by 1000).
\<close>

record salaryT =
  sal_min :: "real option"
  sal_max :: "real option"
  currency :: "ustring option"
  period :: "period option"

definition isDigit :: "nat \<Rightarrow> bool" where
  "isDigit c \<longleftrightarrow> 48 \<le> c \<and> c \<le> 57"

text \<open>
  \<^verbatim>\<open>parseInt(ds, 10)\<close> on a non-empty run of decimal digits: the double nearest to the
  integer the digits denote, ties to the even significand. An integer below 2 to the power 53 is
  a double; beyond, the 53 leading binary digits are kept and rounded. (From 2 to the power
  1024 on, that is from 309 digits on, the double is \<^verbatim>\<open>Infinity\<close>, which the
  amounts of this model, reals, do not represent.)
\<close>

fun bitLength :: "nat \<Rightarrow> nat" where
  "bitLength n = (if n = 0 then 0 else Suc (bitLength (n div 2)))"

definition toDouble :: "nat \<Rightarrow> nat" where
  "toDouble n =
     (if n < 2 ^ 53 then n
      else
        let e = bitLength n - 53;
            q = n div 2 ^ e;
            r = n mod 2 ^ e;
            h = 2 ^ (e - 1)
        in (if h < r \<or> (r = h \<and> odd q) then q + 1 else q) * 2 ^ e)"

definition parseInt :: "ustring \<Rightarrow> nat" where
  "parseInt ds = toDouble (foldl (\<lambda>a c. 10 * a + (c - 48)) 0 ds)"

text \<open>The optional \<^verbatim>\<open>k?\<close> of both patterns: it consumes a \<open>k\<close> when there is one.\<close>

fun optK :: "ustring \<Rightarrow> ustring" where
  "optK [] = []"
| "optK (c # cs) = (if c = 107 then cs else c # cs)"

text \<open>
  The range pattern \<^verbatim>\<open>/(\d+)k?[-\<dots>](\d+)k?/\<close> tried at the start of \<open>s\<close>: a maximal
  run of digits, an optional \<open>k\<close>, one of hyphen (45), en dash (U+2013) and a-grave
  (U+00E0), and a second maximal run of digits. No shorter first run can match, since
  the character after it would be a digit. The result is the two captured groups.
\<close>

definition rangeAt :: "ustring \<Rightarrow> (ustring \<times> ustring) option" where
  "rangeAt s =
     (let d1 = takeWhile isDigit s; r1 = optK (dropWhile isDigit s) in
      if d1 = [] then None
      else (case r1 of
          [] \<Rightarrow> None
        | c # r2 \<Rightarrow>
            if c = 45 \<or> c = 8211 \<or> c = 224
            then (let d2 = takeWhile isDigit r2 in if d2 = [] then None else Some (d1, d2))
            else None))"

text \<open>\<^verbatim>\<open>normalized.match(...)\<close>: the leftmost position at which the pattern matches.\<close>

fun rangeMatch :: "ustring \<Rightarrow> (ustring \<times> ustring) option" where
  "rangeMatch [] = None"
| "rangeMatch (c # cs) =
     (case rangeAt (c # cs) of Some m \<Rightarrow> Some m | None \<Rightarrow> rangeMatch cs)"

text \<open>
  The single-value pattern \<^verbatim>\<open>/(\d+)k?[\<dots>]/\<close>, whose class holds the euro sign
  (U+20AC), the dollar sign (36) and the pound sign (U+00A3).
\<close>

definition singleAt :: "ustring \<Rightarrow> ustring option" where
  "singleAt s =
     (let d1 = takeWhile isDigit s; r1 = optK (dropWhile isDigit s) in
      if d1 = [] then None
      else (case r1 of
          [] \<Rightarrow> None
        | c # r2 \<Rightarrow> if c = 8364 \<or> c = 36 \<or> c = 163 then Some d1 else None))"

fun singleMatch :: "ustring \<Rightarrow> ustring option" where
  "singleMatch [] = None"
| "singleMatch (c # cs) =
     (case singleAt (c # cs) of Some m \<Rightarrow> Some m | None \<Rightarrow> singleMatch cs)"

text \<open>\<^verbatim>\<open>text.toLowerCase().replace(/\s/g, '')\<close>.\<close>

definition normalizeSalary :: "ustring \<Rightarrow> ustring" where
  "normalizeSalary text = filter (\<lambda>c. \<not> isSpace c) (toLowerCase text)"

text \<open>The "k" conversion: \<^verbatim>\<open>if (v < 1000 && normalized.includes('k')) v *= 1000\<close>.\<close>

definition kNotation :: "ustring \<Rightarrow> nat \<Rightarrow> nat" where
  "kNotation normalized v = (if v < 1000 \<and> includes normalized (lit ''k'') then v * 1000 else v)"

text \<open>
  \<^verbatim>\<open>parseSalary\<close> of \<^verbatim>\<open>base.ts\<close>. The currency and the period are set by successive
  assignments, so the last test that holds decides. The single-value branch tests
  neither \<^verbatim>\<open>chf\<close> nor the period words: it returns \<^verbatim>\<open>period: 'year'\<close>.
\<close>

definition parseSalary :: "ustring \<Rightarrow> salaryT option" where
  "parseSalary text =
     (if text = [] then None
      else
        let normalized = normalizeSalary text in
        case rangeMatch normalized of
          Some (g1, g2) \<Rightarrow>
            let mn = kNotation normalized (parseInt g1);
                mx = kNotation normalized (parseInt g2);
                cur = lit ''EUR'';
                cur = (if includes normalized (lit ''$'') then lit ''USD'' else cur);
                cur = (if includes normalized [163] then lit ''GBP'' else cur);
                cur = (if includes normalized (lit ''chf'') then lit ''CHF'' else cur);
                per = year;
                per = (if includes normalized (lit ''/h'') \<or> includes normalized (lit ''heure'')
                       then hour else per);
                per = (if includes normalized (lit ''/j'') \<or> includes normalized (lit ''jour'')
                       then day else per);
                per = (if includes normalized (lit ''/m'') \<or> includes normalized (lit ''mois'')
                       then month else per)
            in Some \<lparr>sal_min = Some (real mn), sal_max = Some (real mx),
                      currency = Some cur, period = Some per\<rparr>
        | None \<Rightarrow>
            (case singleMatch normalized of
               Some g1 \<Rightarrow>
                 let v = kNotation normalized (parseInt g1);
                     cur = lit ''EUR'';
                     cur = (if includes normalized (lit ''$'') then lit ''USD'' else cur);
                     cur = (if includes normalized [163] then lit ''GBP'' else cur)
                 in Some \<lparr>sal_min = Some (real v), sal_max = Some (real v),
                           currency = Some cur, period = Some year\<rparr>
             | None \<Rightarrow> None))"

section \<open>Regular-expression replacement, splitting and joining\<close>

text \<open>
  \<^verbatim>\<open>s.replace(re, r)\<close> for a global regular expression \<open>re\<close> and a literal replacement
  \<open>r\<close>. The expression is given by its matcher \<open>m\<close>: \<open>m prev rest\<close> is the length of the
  match that starts where \<open>rest\<close> starts (\<open>prev\<close> is the code unit before it, needed by
  \<^verbatim>\<open>^\<close> in multi-line mode), or \<open>None\<close>. The scan goes from left to right and resumes
  after each match; after an empty match it copies one code unit.
\<close>

fun replaceAll ::
  "(nat option \<Rightarrow> ustring \<Rightarrow> nat option) \<Rightarrow> ustring \<Rightarrow> nat option \<Rightarrow> ustring \<Rightarrow> ustring"
where
  "replaceAll m r prev [] = (case m prev [] of Some n \<Rightarrow> r | None \<Rightarrow> [])"
| "replaceAll m r prev (c # cs) =
     (case m prev (c # cs) of
        None \<Rightarrow> c # replaceAll m r (Some c) cs
      | Some n \<Rightarrow>
          if n = 0 then r @ c # replaceAll m r (Some c) cs
          else r @ replaceAll m r (Some ((c # cs) ! (n - 1))) (drop (n - 1) cs))"

definition replaceRe :: "(nat option \<Rightarrow> ustring \<Rightarrow> nat option) \<Rightarrow> ustring \<Rightarrow> ustring \<Rightarrow> ustring" where
  "replaceRe m r s = replaceAll m r None s"

text \<open>The length of the run of code units satisfying \<open>P\<close> at the start of \<open>s\<close>.\<close>

definition runLength :: "(nat \<Rightarrow> bool) \<Rightarrow> ustring \<Rightarrow> nat" where
  "runLength P s = length (takeWhile P s)"

text \<open>\<^verbatim>\<open>s.split(sep)\<close> for a one-unit separator, and \<^verbatim>\<open>parts.join(sep)\<close>.\<close>

fun split :: "'a \<Rightarrow> 'a list \<Rightarrow> 'a list list" where
  "split sep [] = [[]]"
| "split sep (c # cs) =
     (if c = sep then [] # split sep cs
      else (case split sep cs of [] \<Rightarrow> [[c]] | l # ls \<Rightarrow> (c # l) # ls))"

fun join :: "'a list \<Rightarrow> 'a list list \<Rightarrow> 'a list" where
  "join sep [] = []"
| "join sep [x] = x"
| "join sep (x # y # ys) = x @ sep @ join sep (y # ys)"

definition nl :: ustring where
  "nl = [10]"

text \<open>The decimal digits of a number, as template literals print an index.\<close>

fun showNat :: "nat \<Rightarrow> ustring" where
  "showNat n = (if n < 10 then [48 + n] else showNat (n div 10) @ [48 + n mod 10])"

section \<open>Markup-to-Markdown renderer\<close>

text \<open>
  The DOM tree the renderer walks: text nodes, elements (the lower-cased tag name, the
  attributes, the child nodes) and nodes of any other type (comments, for instance).
\<close>

datatype node =
    TextNode ustring
  | Element ustring "(ustring \<times> ustring) list" "node list"
  | OtherNode

fun isTag :: "ustring \<Rightarrow> node \<Rightarrow> bool" where
  "isTag t (Element tag attrs kids) = (tag = t)"
| "isTag t n = False"

text \<open>All descendants of a node in document order, as \<^verbatim>\<open>querySelectorAll\<close> visits them.\<close>

fun descendants :: "node \<Rightarrow> node list" where
  "descendants (Element tag attrs kids) = concat (map (\<lambda>k. k # descendants k) kids)"
| "descendants n = []"

text \<open>\<^verbatim>\<open>element.querySelectorAll(':scope > li')\<close>: the child elements with tag \<open>li\<close>.\<close>

definition scopeLi :: "node list \<Rightarrow> node list" where
  "scopeLi kids = filter (isTag (lit ''li'')) kids"

text \<open>\<^verbatim>\<open>tableElement.querySelectorAll('tr')\<close> and \<^verbatim>\<open>row.querySelectorAll('td, th')\<close>.\<close>

definition tableRows :: "node \<Rightarrow> node list" where
  "tableRows t = filter (isTag (lit ''tr'')) (descendants t)"

definition rowCells :: "node \<Rightarrow> node list" where
  "rowCells r = filter (\<lambda>n. isTag (lit ''td'') n \<or> isTag (lit ''th'') n) (descendants r)"

text \<open>
  One item of \<^verbatim>\<open>processListItems\<close>, from its prefix and the rendering of the \<open>li\<close>:
  the first line stays with the bullet, the following lines are indented by two spaces.
\<close>

definition listItem :: "ustring \<Rightarrow> ustring \<Rightarrow> ustring" where
  "listItem prefix rendered =
     (let content = trim rendered;
          lines = split 10 content;
          firstLine = (case lines of [] \<Rightarrow> [] | l # ls \<Rightarrow> l);
          rest = join nl (map (\<lambda>line. lit ''  '' @ line) (tl lines))
      in prefix @ lit '' '' @ firstLine @ (if rest \<noteq> [] then nl @ rest else []))"

text \<open>
  \<^verbatim>\<open>processListItems\<close>, given the renderings of the list's \<open>li\<close> children in order;
  \<open>ordered\<close> tells an \<open>ol\<close> from a \<open>ul\<close>.
\<close>

definition processListItems :: "bool \<Rightarrow> ustring list \<Rightarrow> ustring" where
  "processListItems ordered rendered =
     join nl (map (\<lambda>(index, r). listItem (if ordered then showNat (index + 1) @ lit ''.'' else lit ''-'') r)
                  (enumerate 0 rendered))"

text \<open>\<^verbatim>\<open>.replace(/\|/g, '\\|')\<close> on the content of a table cell.\<close>

definition escapePipes :: "ustring \<Rightarrow> ustring" where
  "escapePipes s = replaceRe (\<lambda>prev rest. if startsWith rest (lit ''|'') then Some 1 else None) [92, 124] s"

text \<open>
  \<^verbatim>\<open>processTable\<close>, given for each row (in document order) the renderings of its cells:
  one pipe-delimited line per row, and the separator line after the first.
\<close>

definition tableRow :: "nat \<times> ustring list \<Rightarrow> ustring list" where
  "tableRow ir =
     (let cellContents = map (\<lambda>c. escapePipes (trim c)) (snd ir);
          line = lit ''| '' @ join (lit '' | '') cellContents @ lit '' |''
      in if fst ir = 0
         then [line, lit ''| '' @ join (lit '' | '') (map (\<lambda>c. lit ''---'') (snd ir)) @ lit '' |'']
         else [line])"

definition processTable :: "ustring list list \<Rightarrow> ustring" where
  "processTable rows =
     (if rows = [] then [] else join nl (concat (map tableRow (enumerate 0 rows))))"

definition ignoredTags :: "ustring list" where
  "ignoredTags = [lit ''script'', lit ''style'', lit ''noscript'', lit ''iframe'', lit ''svg'',
     lit ''canvas'']"

text \<open>
  The \<^verbatim>\<open>switch\<close> of \<^verbatim>\<open>processNode\<close> on the tag name. \<open>children\<close> is the concatenated
  rendering of the child nodes. For lists and tables the source calls
  \<^verbatim>\<open>processListItems\<close> and \<^verbatim>\<open>processTable\<close>, which render the \<open>li\<close> children,
  respectively the cells of the rows, with \<^verbatim>\<open>processNode\<close> again: \<open>items\<close> and \<open>cells\<close>
  are these renderings.
\<close>

definition renderElement ::
  "ustring \<Rightarrow> (ustring \<times> ustring) list \<Rightarrow> ustring \<Rightarrow> ustring list \<Rightarrow> ustring list list \<Rightarrow> ustring"
where
  "renderElement tagName attrs children items cells =
     (if tagName = lit ''h1'' then nl @ lit ''# '' @ trim children @ nl @ nl
      else if tagName = lit ''h2'' then nl @ lit ''## '' @ trim children @ nl @ nl
      else if tagName = lit ''h3'' then nl @ lit ''### '' @ trim children @ nl @ nl
      else if tagName = lit ''h4'' then nl @ lit ''#### '' @ trim children @ nl @ nl
      else if tagName = lit ''h5'' then nl @ lit ''##### '' @ trim children @ nl @ nl
      else if tagName = lit ''h6'' then nl @ lit ''###### '' @ trim children @ nl @ nl
      else if tagName = lit ''strong'' \<or> tagName = lit ''b''
        then lit ''**'' @ trim children @ lit ''**''
      else if tagName = lit ''em'' \<or> tagName = lit ''i''
        then lit ''*'' @ trim children @ lit ''*''
      else if tagName = lit ''u'' then lit ''_'' @ trim children @ lit ''_''
      else if tagName = lit ''s'' \<or> tagName = lit ''strike'' \<or> tagName = lit ''del''
        then lit ''~~'' @ trim children @ lit ''~~''
      else if tagName = lit ''code'' then lit ''`'' @ trim children @ lit ''`''
      else if tagName = lit ''a'' then
        (case map_of attrs (lit ''href'') of
           None \<Rightarrow> children
         | Some href \<Rightarrow>
             if href \<noteq> [] \<and> \<not> startsWith href (lit ''javascript:'')
             then lit ''['' @ trim children @ lit '']('' @ href @ lit '')''
             else children)
      else if tagName = lit ''ul''
        then nl @ processListItems False items @ nl
      else if tagName = lit ''ol''
        then nl @ processListItems True items @ nl
      else if tagName = lit ''li'' then children
      else if tagName = lit ''p'' then nl @ trim children @ nl @ nl
      else if tagName = lit ''br'' then nl
      else if tagName = lit ''hr'' then nl @ lit ''---'' @ nl @ nl
      else if tagName = lit ''div'' \<or> tagName = lit ''section'' \<or> tagName = lit ''article''
        then nl @ children @ nl
      else if tagName = lit ''blockquote''
        then nl @ lit ''> '' @ join (nl @ lit ''> '') (split 10 (trim children)) @ nl @ nl
      else if tagName = lit ''pre''
        then nl @ lit ''```'' @ nl @ trim children @ nl @ lit ''```'' @ nl @ nl
      else if tagName = lit ''table''
        then nl @ processTable cells @ nl
      else if tagName \<in> set [lit ''tr'', lit ''td'', lit ''th'', lit ''thead'', lit ''tbody'']
        then children
      else if tagName \<in> set ignoredTags then []
      else children)"

text \<open>
  \<^verbatim>\<open>processNode\<close>: a text node is its text, a node that is neither text nor element
  is empty, and an element renders its children first and then applies the wrapper of
  its tag.
\<close>

function processNode :: "node \<Rightarrow> ustring" where
  "processNode (TextNode t) = t"
| "processNode OtherNode = []"
| "processNode (Element tagName attrs kids) =
     renderElement tagName attrs
       (concat (map processNode kids))
       (map processNode (scopeLi kids))
       (map (\<lambda>row. map processNode (rowCells row)) (tableRows (Element tagName attrs kids)))"
  by pat_completeness auto
termination
proof (relation "measure size")
  have desc: "n \<in> set (descendants m) \<Longrightarrow> size n < size m" for n m
  proof (induction m arbitrary: n)
    case (Element tagName attrs kids)
    then obtain k where k: "k \<in> set kids" and n: "n = k \<or> n \<in> set (descendants k)"
      by auto
    from k have "size k < size (Element tagName attrs kids)"
      by (induction kids) auto
    moreover from n Element.IH k have "size n \<le> size k"
      by (auto simp: less_imp_le)
    ultimately show ?case by linarith
  qed simp_all
  show "wf (measure size)" by simp
  fix tagName :: ustring and attrs :: "(ustring \<times> ustring) list" and kids :: "node list"
  let ?e = "Element tagName attrs kids"
  have kid: "k \<in> set kids \<Longrightarrow> size k < size ?e" for k
    by (induction kids) auto
  { fix x assume "x \<in> set kids"
    then show "(x, ?e) \<in> measure size" using kid by simp }
  { fix x assume "x \<in> set (scopeLi kids)"
    then show "(x, ?e) \<in> measure size" using kid by (simp add: scopeLi_def) }
  { fix row x assume "row \<in> set (tableRows ?e)" and "x \<in> set (rowCells row)"
    then have "row \<in> set (descendants ?e)" and "x \<in> set (descendants row)"
      by (simp_all add: tableRows_def rowCells_def del: descendants.simps)
    then have "size row < size ?e" and "size x < size row"
      using desc by blast+
    then show "(x, ?e) \<in> measure size" by simp }
qed

text \<open>The steps of \<^verbatim>\<open>cleanMarkdown\<close>, each a replacement given by its matcher.\<close>

definition reNewlines3 :: "nat option \<Rightarrow> ustring \<Rightarrow> nat option" where
  \<comment> \<open>\<^verbatim>\<open>/\n{3,}/\<close>\<close>
  "reNewlines3 prev rest =
     (let k = runLength (\<lambda>c. c = 10) rest in if 3 \<le> k then Some k else None)"

definition reLitThenSpaces :: "ustring \<Rightarrow> nat option \<Rightarrow> ustring \<Rightarrow> nat option" where
  \<comment> \<open>\<^verbatim>\<open>/\*\*\s+/\<close> and \<^verbatim>\<open>/\*\s+/\<close>: the literal, then a maximal non-empty run of white space\<close>
  "reLitThenSpaces l prev rest =
     (let k = runLength isSpace (drop (length l) rest)
      in if startsWith rest l \<and> 0 < k then Some (length l + k) else None)"

definition reSpacesThenLit :: "ustring \<Rightarrow> nat option \<Rightarrow> ustring \<Rightarrow> nat option" where
  \<comment> \<open>\<^verbatim>\<open>/\s+\*\*/\<close> and \<^verbatim>\<open>/\s+\*/\<close>: a non-empty run of white space, then the literal; the
      run is the maximal one, since the literal does not start with white space\<close>
  "reSpacesThenLit l prev rest =
     (let k = runLength isSpace rest
      in if 0 < k \<and> startsWith (drop k rest) l then Some (k + length l) else None)"

definition reLit :: "ustring \<Rightarrow> nat option \<Rightarrow> ustring \<Rightarrow> nat option" where
  \<comment> \<open>a literal, as \<^verbatim>\<open>/\*\*\*\*/\<close> and \<^verbatim>\<open>/\n- \n/\<close>\<close>
  "reLit l prev rest = (if startsWith rest l then Some (length l) else None)"

definition isLineTerminator :: "nat \<Rightarrow> bool" where
  "isLineTerminator c \<longleftrightarrow> c = 10 \<or> c = 13 \<or> c = 8232 \<or> c = 8233"

definition isBullet :: "nat \<Rightarrow> bool" where
  \<comment> \<open>U+2022, U+25CF, U+25CB, U+25AA, U+25B8, U+25BA\<close>
  "isBullet c \<longleftrightarrow> c = 8226 \<or> c = 9679 \<or> c = 9675 \<or> c = 9642 \<or> c = 9656 \<or> c = 9658"

definition reBullet :: "nat option \<Rightarrow> ustring \<Rightarrow> nat option" where
  \<comment> \<open>\<^verbatim>\<open>/^[\s]*[bullets]\s*/m\<close>: at the start of the text or after a line terminator,
      white space, one bullet glyph, white space\<close>
  "reBullet prev rest =
     (let atLineStart = (case prev of None \<Rightarrow> True | Some p \<Rightarrow> isLineTerminator p);
          k = runLength isSpace rest;
          r1 = drop k rest
      in case r1 of
           [] \<Rightarrow> None
         | b # r2 \<Rightarrow>
             if atLineStart \<and> isBullet b then Some (k + 1 + runLength isSpace r2) else None)"

text \<open>
  \<^verbatim>\<open>cleanMarkdown\<close>. The replacement of \<^verbatim>\<open>/\*\*/g\<close> by a function that returns its
  match changes nothing and is the identity here.
\<close>

definition cleanMarkdown :: "ustring \<Rightarrow> ustring" where
  "cleanMarkdown markdown =
     (let s = replaceRe reNewlines3 (nl @ nl) markdown;
          s = join nl (map trimEnd (split 10 s));
          s = trim s;
          s = replaceRe (reLitThenSpaces (lit ''**'')) (lit ''**'') s;
          s = replaceRe (reSpacesThenLit (lit ''**'')) (lit ''**'') s;
          s = replaceRe (reLitThenSpaces (lit ''*'')) (lit ''*'') s;
          s = replaceRe (reSpacesThenLit (lit ''*'')) (lit ''*'') s;
          s = replaceRe (reLit (lit ''****'')) [] s;
          s = replaceRe reBullet (lit ''- '') s;
          s = replaceRe (reLit (nl @ lit ''- '' @ nl)) nl s
      in s)"

text \<open>
  \<^verbatim>\<open>htmlToMarkdown\<close>. The HTML parser of the browser is an argument: \<open>parseBody html\<close>
  is the \<open>body\<close> element of \<^verbatim>\<open>new DOMParser().parseFromString(html, 'text/html')\<close>.
\<close>

definition htmlToMarkdown :: "(ustring \<Rightarrow> node) \<Rightarrow> ustring \<Rightarrow> ustring" where
  "htmlToMarkdown parseBody html =
     (if html = [] then [] else cleanMarkdown (processNode (parseBody html)))"

section \<open>The page and the platform\<close>

text \<open>
  The extraction code reads the page through the DOM interface only: the document title,
  \<^verbatim>\<open>querySelector\<close> and \<^verbatim>\<open>querySelectorAll\<close> with selectors that are constants of the
  code, and for an element found its \<^verbatim>\<open>textContent\<close>, its \<^verbatim>\<open>innerHTML\<close> and its
  attributes. A document is modelled by what these reads return: \<open>doc_querySelectorAll\<close>
  gives the matching elements in document order.
\<close>

record element =
  textContent :: ustring
  innerHTML :: ustring
  attributes :: "(ustring \<times> ustring) list"

record document =
  doc_title :: ustring
  doc_querySelectorAll :: "ustring \<Rightarrow> element list"

definition querySelector :: "document \<Rightarrow> ustring \<Rightarrow> element option" where
  "querySelector doc selector =
     (case doc_querySelectorAll doc selector of [] \<Rightarrow> None | e # es \<Rightarrow> Some e)"

definition getAttribute :: "element \<Rightarrow> ustring \<Rightarrow> ustring option" where
  "getAttribute e a = map_of (attributes e) a"

text \<open>
  A value that \<^verbatim>\<open>JSON.parse\<close> returns: \<^verbatim>\<open>null\<close>, a boolean, a number, a string, an
  array, or an object, given by the list of its properties (a name is looked up from the
  left). A number is a double: a real, or an infinity, to which a literal such as
  \<^verbatim>\<open>1e999\<close> overflows. The code only tests and copies the numbers it reads.
\<close>

datatype number = Finite real | PlusInfinity | MinusInfinity

datatype json =
    JNull
  | JBool bool
  | JNumber number
  | JString ustring
  | JArray "json list"
  | JObject "(ustring \<times> json) list"

text \<open>An exception thrown by the code or by the runtime.\<close>

datatype fault = Fault ustring

definition typeError :: fault where
  "typeError = Fault (lit ''TypeError'')"

text \<open>
  The property read \<^verbatim>\<open>v[k]\<close>, for the names \<open>k\<close> the code reads from JSON values
  (\<^verbatim>\<open>@type\<close>, \<^verbatim>\<open>@graph\<close> and the properties of a job posting), none of which is a
  property of the prototype of a string, number, boolean, array or object: reading from
  \<^verbatim>\<open>null\<close> throws a \<^verbatim>\<open>TypeError\<close>, an object gives its own property, and any other
  value gives \<^verbatim>\<open>undefined\<close> (\<open>None\<close>).
\<close>

fun getProp :: "json \<Rightarrow> ustring \<Rightarrow> fault + json option" where
  "getProp JNull k = Inl typeError"
| "getProp (JObject ps) k = Inr (map_of ps k)"
| "getProp (JBool b) k = Inr None"
| "getProp (JNumber n) k = Inr None"
| "getProp (JString s) k = Inr None"
| "getProp (JArray xs) k = Inr None"

text \<open>\<^verbatim>\<open>Array.isArray(data) ? data : [data]\<close>.\<close>

fun jsonItems :: "json \<Rightarrow> json list" where
  "jsonItems (JArray items) = items"
| "jsonItems data = [data]"

text \<open>
  What the code takes from the browser and the language runtime, as arguments of the
  model: the host name that \<^verbatim>\<open>new URL(url)\<close> parses (\<open>None\<close> when the constructor
  throws), the \<open>body\<close> that \<^verbatim>\<open>DOMParser\<close> builds from markup, \<^verbatim>\<open>JSON.parse\<close> (\<open>None\<close>
  when it throws), and the calendar of \<^verbatim>\<open>Date\<close>: the ISO string of an instant, and the
  instant a number of hours, days or months before another one (\<^verbatim>\<open>setHours\<close>,
  \<^verbatim>\<open>setDate\<close>, \<^verbatim>\<open>setMonth\<close> on the local-time fields). An instant is a time value, in
  milliseconds.
\<close>

type_synonym date = int

datatype timeUnit = Hours | Days | Months

record platform =
  URL_hostname :: "ustring \<Rightarrow> ustring option"
  DOMParser_body :: "ustring \<Rightarrow> node"
  JSON_parse :: "ustring \<Rightarrow> json option"
  Date_toISOString :: "date \<Rightarrow> ustring"
  Date_before :: "timeUnit \<Rightarrow> nat \<Rightarrow> date \<Rightarrow> date"

text \<open>\<^verbatim>\<open>re.test(s)\<close> and \<^verbatim>\<open>s.match(re)\<close>: the leftmost position where the matcher succeeds.\<close>

fun searchRe :: "(ustring \<Rightarrow> 'a option) \<Rightarrow> ustring \<Rightarrow> 'a option" where
  "searchRe m [] = m []"
| "searchRe m (c # cs) = (case m (c # cs) of Some r \<Rightarrow> Some r | None \<Rightarrow> searchRe m cs)"

text \<open>\<^verbatim>\<open>getDomain\<close>: the host name without a leading \<^verbatim>\<open>www.\<close>, or the empty string.\<close>

definition getDomain :: "platform \<Rightarrow> ustring \<Rightarrow> ustring" where
  "getDomain P url =
     (case URL_hostname P url of
        Some hostname \<Rightarrow>
          if startsWith hostname (lit ''www.'') then drop 4 hostname else hostname
      | None \<Rightarrow> [])"

text \<open>\<^verbatim>\<open>s.replace(p, r)\<close> for a string pattern: the first occurrence only.\<close>

fun replaceFirst :: "ustring \<Rightarrow> ustring \<Rightarrow> ustring \<Rightarrow> ustring" where
  "replaceFirst p r [] = (if p = [] then r else [])"
| "replaceFirst p r (c # cs) =
     (if startsWith (c # cs) p then r @ drop (length p) (c # cs) else c # replaceFirst p r cs)"

section \<open>Which pages a strategy handles\<close>

definition linkedin_domains :: "ustring list" where
  "linkedin_domains = [lit ''linkedin.com'', lit ''www.linkedin.com'']"

definition linkedin_canHandle :: "platform \<Rightarrow> ustring \<Rightarrow> bool" where
  "linkedin_canHandle P url =
     (let domain = getDomain P url
      in List.member linkedin_domains domain \<and> includes url (lit ''/jobs/''))"

definition indeed_domains :: "ustring list" where
  "indeed_domains = [lit ''indeed.com'', lit ''indeed.fr'', lit ''www.indeed.com'',
     lit ''www.indeed.fr'']"

definition indeed_canHandle :: "platform \<Rightarrow> ustring \<Rightarrow> bool" where
  "indeed_canHandle P url =
     (let domain = getDomain P url
      in list_ex (\<lambda>d. includes domain (lit ''indeed'')) indeed_domains)"

definition wttj_domains :: "ustring list" where
  "wttj_domains = [lit ''welcometothejungle.com'', lit ''www.welcometothejungle.com'']"

definition wttj_canHandle :: "platform \<Rightarrow> ustring \<Rightarrow> bool" where
  "wttj_canHandle P url =
     (let domain = getDomain P url
      in list_ex (\<lambda>d. includes domain (lit ''welcometothejungle'')) wttj_domains)"

text \<open>The selector of the JSON-LD scripts.\<close>

definition jsonLdSelector :: ustring where
  \<open>jsonLdSelector = lit ''script[type="application/ld+json"]''\<close>

section \<open>Page classifier\<close>

definition jobSiteDomains :: "ustring list" where
  "jobSiteDomains = map lit
     [''linkedin.com'', ''indeed.com'', ''indeed.fr'', ''welcometothejungle.com'',
      ''glassdoor.com'', ''glassdoor.fr'', ''monster.fr'', ''monster.com'', ''apec.fr'',
      ''pole-emploi.fr'', ''francetravail.fr'', ''hellowork.com'', ''cadremploi.fr'',
      ''talent.com'', ''jobteaser.com'']"

definition isKnownJobSite :: "ustring \<Rightarrow> bool" where
  \<comment> \<open>\<^verbatim>\<open>jobSiteDomains.some((d) => domain.includes(d.replace('www.', '')))\<close>\<close>
  "isKnownJobSite domain =
     list_ex (\<lambda>d. includes domain (replaceFirst (lit ''www.'') [] d)) jobSiteDomains"

definition pathIndicators :: "ustring list" where
  "pathIndicators = map lit
     [''/jobs/'', ''/job/'', ''/offre/'', ''/emploi/'', ''/career/'', ''/carriere/'']"

definition hasJobPath :: "ustring \<Rightarrow> bool" where
  "hasJobPath url = list_ex (\<lambda>p. includes (toLowerCase url) p) pathIndicators"

text \<open>
  The four URL patterns. Those with the flag \<^verbatim>\<open>i\<close> are matched against the text with
  \<open>A\<close>-\<open>Z\<close> lowered.
\<close>

definition reJobsView :: "ustring \<Rightarrow> unit option" where
  \<comment> \<open>\<^verbatim>\<open>/\/jobs\/view\/\d+/\<close>\<close>
  "reJobsView rest =
     (if startsWith rest (lit ''/jobs/view/'') \<and> 0 < runLength isDigit (drop 11 rest)
      then Some () else None)"

definition isSlugChar :: "nat \<Rightarrow> bool" where
  \<comment> \<open>\<^verbatim>\<open>[a-z0-9-]\<close> with the flag \<^verbatim>\<open>i\<close>\<close>
  "isSlugChar c \<longleftrightarrow> (97 \<le> asciiLower c \<and> asciiLower c \<le> 122) \<or> isDigit c \<or> c = 45"

definition reSlugAfter :: "ustring \<Rightarrow> ustring \<Rightarrow> unit option" where
  \<comment> \<open>\<^verbatim>\<open>/\/job\/[a-z0-9-]+/i\<close> and \<^verbatim>\<open>/\/offre\/[a-z0-9-]+/i\<close>\<close>
  "reSlugAfter pre rest =
     (if startsWith (map asciiLower rest) pre \<and> 0 < runLength isSlugChar (drop (length pre) rest)
      then Some () else None)"

definition hasJobUrl :: "ustring \<Rightarrow> bool" where
  "hasJobUrl url \<longleftrightarrow>
     searchRe reJobsView url \<noteq> None
     \<or> searchRe (reSlugAfter (lit ''/job/'')) url \<noteq> None
     \<or> searchRe (reSlugAfter (lit ''/offre/'')) url \<noteq> None
     \<or> includes (map asciiLower url) (lit ''viewjob'')"

record indicators =
  urlScore :: nat
  contentScore :: nat
  structuredDataScore :: nat

definition urlKeywords :: "ustring list" where
  "urlKeywords = map lit
     [''job'', ''career'', ''emploi'', ''offre'', ''recrutement'', ''hiring'', ''vacancy'',
      ''position'']"

definition titleKeywords :: "ustring list" where
  "titleKeywords = map lit
     [''job'', ''career'', ''emploi'', ''poste'', ''recrutement'', ''hiring'', ''developer'',
      ''engineer'', ''manager'']"

definition jobElementSelectors :: "ustring list" where
  \<open>jobElementSelectors = map lit
     [''[class*="job-description"]'', ''[class*="job-title"]'', ''[class*="apply"]'',
      ''[id*="job-description"]'', ''button[class*="apply"]'', ''a[href*="apply"]'']\<close>

text \<open>
  The body of the loop over the JSON-LD scripts (\<^verbatim>\<open>index.ts\<close>, lines 132 to 148), all of
  it inside one \<^verbatim>\<open>try\<close>. \<open>typeIsJobPosting\<close> is the test \<^verbatim>\<open>v['@type'] === 'JobPosting'\<close>,
  which throws on \<^verbatim>\<open>null\<close>. \<open>someJobPosting\<close> is \<^verbatim>\<open>Array.prototype.some\<close> with that test
  as its callback: it stops at the first element that passes, or at the first that
  throws. \<open>graphHasJobPosting\<close> is \<^verbatim>\<open>item['@graph']?.some(...)\<close>: \<^verbatim>\<open>undefined\<close> when the
  property is absent or \<^verbatim>\<open>null\<close>, a \<^verbatim>\<open>TypeError\<close> when it is anything but an array, which
  has no callable \<^verbatim>\<open>some\<close>. \<open>scanItems\<close> is the inner loop: \<open>Inr True\<close> when it reaches the
  assignment of the score and the \<^verbatim>\<open>break\<close>, \<open>Inr False\<close> when it ends, \<open>Inl\<close> when it
  throws. \<open>scanScript\<close> is the \<^verbatim>\<open>try\<close> with its \<^verbatim>\<open>catch\<close>: after a failure of \<^verbatim>\<open>JSON.parse\<close>
  or an exception of the loop, the script leaves the score as it was.
\<close>

definition typeIsJobPosting :: "json \<Rightarrow> fault + bool" where
  "typeIsJobPosting v =
     (case getProp v (lit ''@type'') of
        Inl e \<Rightarrow> Inl e
      | Inr t \<Rightarrow> Inr (t = Some (JString (lit ''JobPosting''))))"

fun someJobPosting :: "json list \<Rightarrow> fault + bool" where
  "someJobPosting [] = Inr False"
| "someJobPosting (g # gs) =
     (case typeIsJobPosting g of
        Inl e \<Rightarrow> Inl e
      | Inr b \<Rightarrow> if b then Inr True else someJobPosting gs)"

definition graphHasJobPosting :: "json \<Rightarrow> fault + bool" where
  "graphHasJobPosting item =
     (case getProp item (lit ''@graph'') of
        Inl e \<Rightarrow> Inl e
      | Inr None \<Rightarrow> Inr False
      | Inr (Some JNull) \<Rightarrow> Inr False
      | Inr (Some (JArray gs)) \<Rightarrow> someJobPosting gs
      | Inr (Some (JBool b)) \<Rightarrow> Inl typeError
      | Inr (Some (JNumber n)) \<Rightarrow> Inl typeError
      | Inr (Some (JString s)) \<Rightarrow> Inl typeError
      | Inr (Some (JObject ps)) \<Rightarrow> Inl typeError)"

fun scanItems :: "json list \<Rightarrow> fault + bool" where
  "scanItems [] = Inr False"
| "scanItems (item # items) =
     (case typeIsJobPosting item of
        Inl e \<Rightarrow> Inl e
      | Inr b \<Rightarrow>
          if b then Inr True
          else (case graphHasJobPosting item of
                  Inl e \<Rightarrow> Inl e
                | Inr b' \<Rightarrow> if b' then Inr True else scanItems items))"

definition scanScript :: "platform \<Rightarrow> indicators \<Rightarrow> element \<Rightarrow> indicators" where
  "scanScript P ind script =
     (case JSON_parse P (textContent script) of
        None \<Rightarrow> ind
      | Some data \<Rightarrow>
          (case scanItems (jsonItems data) of
             Inl e \<Rightarrow> ind
           | Inr found \<Rightarrow> if found then ind\<lparr>structuredDataScore := 5\<rparr> else ind))"

definition detectJobPageHeuristics :: "platform \<Rightarrow> ustring \<Rightarrow> document \<Rightarrow> bool" where
  "detectJobPageHeuristics P url doc =
     (let ind = \<lparr>urlScore = 0, contentScore = 0, structuredDataScore = 0\<rparr>;
          urlLower = toLowerCase url;
          ind = ind\<lparr>urlScore := length (filter (\<lambda>k. includes urlLower k) urlKeywords)\<rparr>;
          title = toLowerCase (doc_title doc);
          ind = (if list_ex (\<lambda>k. includes title k) titleKeywords
                 then ind\<lparr>contentScore := contentScore ind + 2\<rparr> else ind);
          ind = foldl (scanScript P) ind (doc_querySelectorAll doc jsonLdSelector);
          hasJobElements = list_ex (\<lambda>s. querySelector doc s \<noteq> None) jobElementSelectors;
          ind = (if hasJobElements then ind\<lparr>contentScore := contentScore ind + 2\<rparr> else ind);
          totalScore = urlScore ind + contentScore ind + structuredDataScore ind
      in 3 \<le> totalScore)"

definition isJobPage :: "platform \<Rightarrow> ustring \<Rightarrow> document \<Rightarrow> bool" where
  "isJobPage P url doc =
     (let domain = getDomain P url
      in if isKnownJobSite domain then hasJobPath url \<or> hasJobUrl url
         else detectJobPageHeuristics P url doc)"

text \<open>
  The heuristic score in words. It is the number of URL keywords that the lower-cased
  URL contains, plus 2 if the lower-cased page title contains a title keyword, plus 2 if
  a job-related selector matches an element, plus 5 if a JSON-LD block of the page holds
  a \<^verbatim>\<open>JobPosting\<close> within reach.

  A posting is an object whose \<^verbatim>\<open>@type\<close> is the string \<^verbatim>\<open>JobPosting\<close>. The graph of an
  item is its property \<^verbatim>\<open>@graph\<close>, when the item is an object and the property is neither
  absent nor \<^verbatim>\<open>null\<close>. An item holds a posting when it is one, or when its graph is an
  array with a posting among the elements before its first \<^verbatim>\<open>null\<close> (one level of
  \<^verbatim>\<open>@graph\<close>, no deeper). An item is unreadable when it is \<^verbatim>\<open>null\<close>, or when it is not a
  posting and its graph is not an array, or is an array with a \<^verbatim>\<open>null\<close> among the elements
  before its first posting. A block (one item, or an array of items) holds a posting
  within reach when one of the items before its first unreadable item holds a posting.
\<close>

definition urlKeywordHits :: "ustring \<Rightarrow> nat" where
  "urlKeywordHits url =
     (\<Sum>k\<leftarrow>urlKeywords. if includes (toLowerCase url) k then 1 else 0)"

definition titleKeywordHit :: "document \<Rightarrow> bool" where
  "titleKeywordHit doc = list_ex (includes (toLowerCase (doc_title doc))) titleKeywords"

definition jobElementHit :: "document \<Rightarrow> bool" where
  "jobElementHit doc = list_ex (\<lambda>s. doc_querySelectorAll doc s \<noteq> []) jobElementSelectors"

fun isPosting :: "json \<Rightarrow> bool" where
  "isPosting (JObject ps) = (map_of ps (lit ''@type'') = Some (JString (lit ''JobPosting'')))"
| "isPosting v = False"

fun graphOf :: "json \<Rightarrow> json option" where
  "graphOf (JObject ps) =
     (if map_of ps (lit ''@graph'') = Some JNull then None else map_of ps (lit ''@graph''))"
| "graphOf v = None"

definition holdsPosting :: "json \<Rightarrow> bool" where
  "holdsPosting item \<longleftrightarrow>
     isPosting item
     \<or> (case graphOf item of
           Some (JArray gs) \<Rightarrow> list_ex isPosting (takeWhile (\<lambda>g. g \<noteq> JNull) gs)
         | _ \<Rightarrow> False)"

definition unreadable :: "json \<Rightarrow> bool" where
  "unreadable item \<longleftrightarrow>
     item = JNull
     \<or> (\<not> isPosting item
        \<and> (case graphOf item of
              None \<Rightarrow> False
            | Some (JArray gs) \<Rightarrow> list_ex (\<lambda>g. g = JNull) (takeWhile (\<lambda>g. \<not> isPosting g) gs)
            | Some _ \<Rightarrow> True))"

definition postingWithinReach :: "json \<Rightarrow> bool" where
  "postingWithinReach data \<longleftrightarrow>
     list_ex holdsPosting (takeWhile (\<lambda>item. \<not> unreadable item) (jsonItems data))"

definition embeddedJobPosting :: "platform \<Rightarrow> document \<Rightarrow> bool" where
  "embeddedJobPosting P doc \<longleftrightarrow>
     list_ex (\<lambda>script. case JSON_parse P (textContent script) of
                 None \<Rightarrow> False
               | Some data \<Rightarrow> postingWithinReach data)
       (doc_querySelectorAll doc jsonLdSelector)"

definition heuristicScore :: "platform \<Rightarrow> ustring \<Rightarrow> document \<Rightarrow> nat" where
  "heuristicScore P url doc =
     urlKeywordHits url + (if titleKeywordHit doc then 2 else 0)
     + (if jobElementHit doc then 2 else 0) + (if embeddedJobPosting P doc then 5 else 0)"

section \<open>A platform and pages for the examples\<close>

text \<open>
  The \<open>body\<close> elements that the HTML parser builds for the three reference markups
  of the specification; any other markup is taken as plain text.
\<close>

definition referenceBody :: "ustring \<Rightarrow> node" where
  "referenceBody html =
     (if html = lit ''<h1>Title</h1>''
      then Element (lit ''body'') [] [Element (lit ''h1'') [] [TextNode (lit ''Title'')]]
      else if html = lit ''<ul><li>a</li><li>b</li></ul>''
      then Element (lit ''body'') []
             [Element (lit ''ul'') []
                [Element (lit ''li'') [] [TextNode (lit ''a'')],
                 Element (lit ''li'') [] [TextNode (lit ''b'')]]]
      else if html = lit ''<strong>x</strong>''
      then Element (lit ''body'') [] [Element (lit ''strong'') [] [TextNode (lit ''x'')]]
      else Element (lit ''body'') [] [TextNode html])"

text \<open>
  The host name of an \<^verbatim>\<open>https\<close> URL whose host is written in lower case, with neither
  credentials nor port: the text between \<^verbatim>\<open>https://\<close> and the next \<^verbatim>\<open>/\<close>, \<^verbatim>\<open>?\<close> or \<^verbatim>\<open>#\<close>.
  The examples use URLs of this form only.
\<close>

definition hostOfHttps :: "ustring \<Rightarrow> ustring option" where
  "hostOfHttps url =
     (if startsWith url (lit ''https://'')
      then Some (takeWhile (\<lambda>c. c \<noteq> 47 \<and> c \<noteq> 63 \<and> c \<noteq> 35) (drop 8 url))
      else None)"

text \<open>
  Four JSON-LD blocks and the values \<^verbatim>\<open>JSON.parse\<close> returns for them: a job posting, a
  block that declares a \<^verbatim>\<open>JobPosting\<close> and nothing else, a posting one level down in
  \<^verbatim>\<open>@graph\<close>, and an array whose first item is \<^verbatim>\<open>null\<close>.
\<close>

definition exampleLdText :: ustring where
  \<open>exampleLdText =
     lit ''{"@type":"JobPosting","title":"Data Engineer","description":"Build data pipelines"}''\<close>

definition exampleLd :: json where
  "exampleLd =
     JObject [(lit ''@type'', JString (lit ''JobPosting'')),
              (lit ''title'', JString (lit ''Data Engineer'')),
              (lit ''description'', JString (lit ''Build data pipelines''))]"

definition bareLdText :: ustring where
  \<open>bareLdText = lit ''{"@type":"JobPosting"}''\<close>

definition bareLd :: json where
  "bareLd = JObject [(lit ''@type'', JString (lit ''JobPosting''))]"

definition graphLdText :: ustring where
  \<open>graphLdText = lit ''{"@graph":[{"@type":"WebSite"},{"@type":"JobPosting"}]}''\<close>

definition graphLd :: json where
  "graphLd =
     JObject [(lit ''@graph'',
               JArray [JObject [(lit ''@type'', JString (lit ''WebSite''))],
                       JObject [(lit ''@type'', JString (lit ''JobPosting''))]])]"

definition nullFirstLdText :: ustring where
  \<open>nullFirstLdText = lit ''[null,{"@type":"JobPosting"}]''\<close>

definition nullFirstLd :: json where
  "nullFirstLd = JArray [JNull, JObject [(lit ''@type'', JString (lit ''JobPosting''))]]"

definition exampleJSON :: "ustring \<Rightarrow> json option" where
  "exampleJSON text =
     (if text = exampleLdText then Some exampleLd
      else if text = bareLdText then Some bareLd
      else if text = graphLdText then Some graphLd
      else if text = nullFirstLdText then Some nullFirstLd
      else None)"

text \<open>
  The ISO strings of the first instant of 1970 and of the instant one second later.
  The examples read the clock at these two instants and reach no other \<^verbatim>\<open>Date\<close>
  operation.
\<close>

definition exampleISO :: "date \<Rightarrow> ustring" where
  "exampleISO d =
     (if d = 1000 then lit ''1970-01-01T00:00:01.000Z'' else lit ''1970-01-01T00:00:00.000Z'')"

definition examplePlatform :: platform where
  "examplePlatform =
     \<lparr>URL_hostname = hostOfHttps, DOMParser_body = referenceBody, JSON_parse = exampleJSON,
      Date_toISOString = exampleISO, Date_before = (\<lambda>u n d. d)\<rparr>"

text \<open>
  A page with a title on which no selector matches, and a page with a title whose only
  elements are one JSON-LD script with a given text.
\<close>

definition plainPage :: "ustring \<Rightarrow> document" where
  "plainPage t = \<lparr>doc_title = t, doc_querySelectorAll = (\<lambda>selector. [])\<rparr>"

definition blockPage :: "ustring \<Rightarrow> ustring \<Rightarrow> document" where
  "blockPage block t =
     \<lparr>doc_title = t,
      doc_querySelectorAll = (\<lambda>selector.
        if selector = jsonLdSelector
        then [\<lparr>textContent = block, innerHTML = block,
               attributes = [(lit ''type'', lit ''application/ld+json'')]\<rparr>]
        else [])\<rparr>"

definition ldPage :: "ustring \<Rightarrow> document" where
  "ldPage t = blockPage exampleLdText t"

section \<open>Properties of the string functions\<close>

lemma lit_Nil [simp]: "lit [] = []"
  by (simp add: lit_def)

lemma lit_Cons [simp]: "lit (c # cs) = of_char c # lit cs"
  by (simp add: lit_def)

lemma startsWith_iff: "startsWith s p \<longleftrightarrow> (\<exists>b. s = p @ b)"
  by (induction s p rule: startsWith.induct) auto

lemma includes_iff: "includes s p \<longleftrightarrow> (\<exists>a b. s = a @ p @ b)"
proof (induction s)
  case Nil
  then show ?case by auto
next
  case (Cons c cs)
  show ?case
  proof
    assume "includes (c # cs) p"
    then consider "startsWith (c # cs) p" | "includes cs p" by auto
    then show "\<exists>a b. c # cs = a @ p @ b"
    proof cases
      case 1
      then obtain b where "c # cs = p @ b" by (auto simp: startsWith_iff)
      then have "c # cs = [] @ p @ b" by simp
      then show ?thesis by blast
    next
      case 2
      then obtain a b where "cs = a @ p @ b" using Cons.IH by auto
      then have "c # cs = (c # a) @ p @ b" by simp
      then show ?thesis by blast
    qed
  next
    assume "\<exists>a b. c # cs = a @ p @ b"
    then obtain a b where ab: "c # cs = a @ p @ b" by auto
    show "includes (c # cs) p"
    proof (cases a)
      case Nil
      with ab have "startsWith (c # cs) p" by (auto simp: startsWith_iff)
      then show ?thesis by simp
    next
      case (Cons x a')
      with ab have "cs = a' @ p @ b" by simp
      then have "includes cs p" using Cons.IH by auto
      then show ?thesis by simp
    qed
  qed
qed

lemma toLowerCase_append: "toLowerCase (a @ b) = toLowerCase a @ toLowerCase b"
  by (simp add: toLowerCase_def)

lemma includes_toLowerCase:
  assumes "includes s p" and "toLowerCase p = p"
  shows "includes (toLowerCase s) p"
proof -
  from assms(1) obtain a b where "s = a @ p @ b" by (auto simp: includes_iff)
  then have "toLowerCase s = toLowerCase a @ p @ toLowerCase b"
    by (simp add: toLowerCase_append assms(2))
  then show ?thesis unfolding includes_iff by blast
qed

lemma remoteWords_lower: "w \<in> set remoteWords \<Longrightarrow> toLowerCase w = w"
  by (auto simp: remoteWords_def teletravail_def toLowerCase_def lowerUnit_def)

lemma hybridWords_lower: "w \<in> set hybridWords \<Longrightarrow> toLowerCase w = w"
  by (auto simp: hybridWords_def teletravail_def toLowerCase_def lowerUnit_def)

lemma onsiteWords_lower: "w \<in> set onsiteWords \<Longrightarrow> toLowerCase w = w"
  by (auto simp: onsiteWords_def presentiel_def toLowerCase_def lowerUnit_def)

lemma containsAny_toLowerCase:
  assumes "containsAny s ws" and "\<And>w. w \<in> set ws \<Longrightarrow> toLowerCase w = w"
  shows "containsAny (toLowerCase s) ws"
  using assms includes_toLowerCase by (fastforce simp: containsAny_def list_ex_iff)

section \<open>The remote-type detector\<close>

lemma detectRemoteType_cascade:
  "detectRemoteType text =
     (if containsAny (toLowerCase text) remoteWords then remote
      else if containsAny (toLowerCase text) hybridWords then hybrid
      else if containsAny (toLowerCase text) onsiteWords then onsite
      else unknown)"
  by (simp add: detectRemoteType_def containsAny_def remoteWords_def hybridWords_def
      onsiteWords_def Let_def)

text \<open>
  C7, as the code has it. The detector lower-cases its input and applies three rules in
  order, the first matching rule deciding: a text containing (in any letter case) one of
  \<^verbatim>\<open>full remote\<close>, \<^verbatim>\<open>100% remote\<close>, \<^verbatim>\<open>teletravail complet\<close> is \<open>remote\<close>; otherwise one
  containing \<^verbatim>\<open>hybrid\<close>, \<^verbatim>\<open>hybride\<close> or \<^verbatim>\<open>teletravail partiel\<close> is \<open>hybrid\<close>; otherwise one
  containing \<^verbatim>\<open>on-site\<close>, \<^verbatim>\<open>sur site\<close> or \<^verbatim>\<open>presentiel\<close> is \<open>onsite\<close>; every other text is
  \<open>unknown\<close> (the accented words are spelt with e-acute). A text that contains a word of the first rule as written is \<open>remote\<close>
  whatever else it contains. In particular \<^verbatim>\<open>sur site\<close> is \<open>onsite\<close>, and
  \<^verbatim>\<open>100% teletravail\<close>, which contains no word of any rule, is \<open>unknown\<close>.
\<close>

theorem detectRemoteType_first_match_wins:
  "detectRemoteType text =
     (if containsAny (toLowerCase text) remoteWords then remote
      else if containsAny (toLowerCase text) hybridWords then hybrid
      else if containsAny (toLowerCase text) onsiteWords then onsite
      else unknown)
   \<and> (containsAny text remoteWords \<longrightarrow> detectRemoteType text = remote)
   \<and> (containsAny text hybridWords \<longrightarrow> detectRemoteType text \<in> {remote, hybrid})
   \<and> (containsAny text onsiteWords \<longrightarrow> detectRemoteType text \<noteq> unknown)
   \<and> detectRemoteType (lit ''sur site'') = onsite
   \<and> detectRemoteType (lit ''100% '' @ teletravail) = unknown"
proof -
  have r: "containsAny text remoteWords \<Longrightarrow> containsAny (toLowerCase text) remoteWords"
    by (rule containsAny_toLowerCase) (auto dest: remoteWords_lower)
  have h: "containsAny text hybridWords \<Longrightarrow> containsAny (toLowerCase text) hybridWords"
    by (rule containsAny_toLowerCase) (auto dest: hybridWords_lower)
  have s: "containsAny text onsiteWords \<Longrightarrow> containsAny (toLowerCase text) onsiteWords"
    by (rule containsAny_toLowerCase) (auto dest: onsiteWords_lower)
  have e1: "detectRemoteType (lit ''sur site'') = onsite"
    by (simp add: detectRemoteType_def toLowerCase_def lowerUnit_def teletravail_def
        presentiel_def)
  have e2: "detectRemoteType (lit ''100% '' @ teletravail) = unknown"
    by (simp add: detectRemoteType_def toLowerCase_def lowerUnit_def teletravail_def
        presentiel_def)
  show ?thesis
    using r h s e1 e2 by (simp add: detectRemoteType_cascade)
qed

theorem detectRemoteType_first_match_wins_witness:
  "containsAny (lit ''Poste en Full Remote ou hybride'') remoteWords = False
   \<and> containsAny (lit ''Poste en Full Remote ou hybride'') hybridWords
   \<and> containsAny (toLowerCase (lit ''Poste en Full Remote ou hybride'')) remoteWords
   \<and> detectRemoteType (lit ''Poste en Full Remote ou hybride'') = remote"
proof -
  have a: "containsAny (lit ''Poste en Full Remote ou hybride'') remoteWords = False"
    by (simp add: containsAny_def remoteWords_def teletravail_def)
  have b: "containsAny (lit ''Poste en Full Remote ou hybride'') hybridWords"
    by (simp add: containsAny_def hybridWords_def teletravail_def)
  have c: "containsAny (toLowerCase (lit ''Poste en Full Remote ou hybride'')) remoteWords"
    by (simp add: containsAny_def remoteWords_def teletravail_def toLowerCase_def
        lowerUnit_def)
  from c detectRemoteType_first_match_wins [of "lit ''Poste en Full Remote ou hybride''"]
  have "detectRemoteType (lit ''Poste en Full Remote ou hybride'') = remote"
    by simp
  with a b c show ?thesis by simp
qed

text \<open>
  The reference value the specification gives for \<^verbatim>\<open>100% teletravail\<close> is not what the
  detector returns: the text contains neither \<^verbatim>\<open>100% remote\<close> nor \<^verbatim>\<open>teletravail complet\<close>.
\<close>

theorem detectRemoteType_teletravail_counterexample:
  "detectRemoteType (lit ''100% '' @ teletravail) \<noteq> remote"
  by (simp add: detectRemoteType_def toLowerCase_def lowerUnit_def teletravail_def
      presentiel_def)

section \<open>The salary parser\<close>

lemmas salary_defs = parseSalary_def normalizeSalary_def toLowerCase_def lowerUnit_def
  isSpace_def rangeAt_def singleAt_def isDigit_def parseInt_def toDouble_def kNotation_def
  Let_def

lemma parseSalary_range_reference:
  "parseSalary (lit ''45k-55k'' @ [8364]) =
     Some \<lparr>sal_min = Some 45000, sal_max = Some 55000, currency = Some (lit ''EUR''),
            period = Some year\<rparr>"
  by (simp add: salary_defs)

lemma parseSalary_no_match:
  assumes "rangeMatch (normalizeSalary text) = None"
      and "singleMatch (normalizeSalary text) = None"
  shows "parseSalary text = None"
  using assms by (simp add: parseSalary_def)

lemma parseSalary_single_branch:
  assumes "text \<noteq> []" and "rangeMatch (normalizeSalary text) = None"
      and "singleMatch (normalizeSalary text) = Some g"
  shows "\<exists>s. parseSalary text = Some s \<and> period s = Some year \<and> sal_min s = sal_max s
           \<and> sal_min s = Some (real (kNotation (normalizeSalary text) (parseInt g)))"
  using assms by (simp add: parseSalary_def Let_def)

text \<open>
  C6 at the single-value input \<^verbatim>\<open>3000EUR/mois\<close> (written with the euro sign, U+20AC):
  the parser returns 3000 for both bounds and the currency EUR, but the period
  \<open>year\<close>, where the claim has the period inferred from the suffix (\<open>month\<close>). The range
  branch does infer it: the range \<^verbatim>\<open>3000-4000EUR/mois\<close> has the period \<open>month\<close>.
\<close>

theorem parseSalary_single_value_period:
  "parseSalary (lit ''3000'' @ [8364] @ lit ''/mois'') =
     Some \<lparr>sal_min = Some 3000, sal_max = Some 3000, currency = Some (lit ''EUR''),
            period = Some year\<rparr>
   \<and> parseSalary (lit ''3000-4000'' @ [8364] @ lit ''/mois'') =
     Some \<lparr>sal_min = Some 3000, sal_max = Some 4000, currency = Some (lit ''EUR''),
            period = Some month\<rparr>"
  by (simp add: salary_defs)

section \<open>The renderer on the reference markups\<close>

lemmas render_defs = renderElement_def trim_def trimStart_def trimEnd_def isSpace_def
  scopeLi_def tableRows_def processTable_def processListItems_def ignoredTags_def
  listItem_def nl_def Let_def

lemmas clean_defs = cleanMarkdown_def replaceRe_def reNewlines3_def reLitThenSpaces_def
  reSpacesThenLit_def reLit_def reBullet_def runLength_def isSpace_def isBullet_def
  isLineTerminator_def trim_def trimStart_def trimEnd_def nl_def Let_def

lemma processNode_h1:
  "processNode (Element (lit ''body'') [] [Element (lit ''h1'') [] [TextNode (lit ''Title'')]])
     = nl @ lit ''# Title'' @ nl @ nl"
  by (simp add: render_defs)

lemma cleanMarkdown_h1: "cleanMarkdown (nl @ lit ''# Title'' @ nl @ nl) = lit ''# Title''"
  by (simp add: clean_defs)

lemma processNode_ul:
  "processNode (Element (lit ''body'') []
       [Element (lit ''ul'') []
          [Element (lit ''li'') [] [TextNode (lit ''a'')],
           Element (lit ''li'') [] [TextNode (lit ''b'')]]])
     = nl @ lit ''- a'' @ nl @ lit ''- b'' @ nl"
  by (simp add: render_defs enumerate_eq_zip)

lemma cleanMarkdown_ul:
  "cleanMarkdown (nl @ lit ''- a'' @ nl @ lit ''- b'' @ nl) = lit ''- a'' @ nl @ lit ''- b''"
  by (simp add: clean_defs)

lemma processNode_strong:
  "processNode (Element (lit ''body'') [] [Element (lit ''strong'') [] [TextNode (lit ''x'')]])
     = lit ''**x**''"
  by (simp add: render_defs)

lemma cleanMarkdown_strong: "cleanMarkdown (lit ''**x**'') = lit ''**x**''"
  by (simp add: clean_defs)

text \<open>
  C5. Given the trees the HTML parser builds for them, the renderer maps the three
  reference markups to the three reference outputs, cleanup pass included: the heading
  to \<^verbatim>\<open># Title\<close>, the two-item list to \<^verbatim>\<open>- a\<close> and \<^verbatim>\<open>- b\<close> on two lines, and the
  \<open>strong\<close> element to \<^verbatim>\<open>**x**\<close>.
\<close>

theorem htmlToMarkdown_reference_equations:
  assumes "parseBody (lit ''<h1>Title</h1>'') =
             Element (lit ''body'') [] [Element (lit ''h1'') [] [TextNode (lit ''Title'')]]"
      and "parseBody (lit ''<ul><li>a</li><li>b</li></ul>'') =
             Element (lit ''body'') []
               [Element (lit ''ul'') []
                  [Element (lit ''li'') [] [TextNode (lit ''a'')],
                   Element (lit ''li'') [] [TextNode (lit ''b'')]]]"
      and "parseBody (lit ''<strong>x</strong>'') =
             Element (lit ''body'') [] [Element (lit ''strong'') [] [TextNode (lit ''x'')]]"
  shows "htmlToMarkdown parseBody (lit ''<h1>Title</h1>'') = lit ''# Title''
       \<and> htmlToMarkdown parseBody (lit ''<ul><li>a</li><li>b</li></ul>'') =
           lit ''- a'' @ nl @ lit ''- b''
       \<and> htmlToMarkdown parseBody (lit ''<strong>x</strong>'') = lit ''**x**''"
proof -
  have "htmlToMarkdown parseBody (lit ''<h1>Title</h1>'') = lit ''# Title''"
    unfolding htmlToMarkdown_def assms(1) processNode_h1 cleanMarkdown_h1 by simp
  moreover have "htmlToMarkdown parseBody (lit ''<ul><li>a</li><li>b</li></ul>'') =
      lit ''- a'' @ nl @ lit ''- b''"
    unfolding htmlToMarkdown_def assms(2) processNode_ul cleanMarkdown_ul by simp
  moreover have "htmlToMarkdown parseBody (lit ''<strong>x</strong>'') = lit ''**x**''"
    unfolding htmlToMarkdown_def assms(3) processNode_strong cleanMarkdown_strong by simp
  ultimately show ?thesis by simp
qed

theorem htmlToMarkdown_reference_equations_witness:
  "htmlToMarkdown referenceBody (lit ''<h1>Title</h1>'') = lit ''# Title''
   \<and> htmlToMarkdown referenceBody (lit ''<ul><li>a</li><li>b</li></ul>'') =
       lit ''- a'' @ nl @ lit ''- b''
   \<and> htmlToMarkdown referenceBody (lit ''<strong>x</strong>'') = lit ''**x**''"
proof -
  have 1: "referenceBody (lit ''<h1>Title</h1>'') =
      Element (lit ''body'') [] [Element (lit ''h1'') [] [TextNode (lit ''Title'')]]"
    by (simp add: referenceBody_def)
  have 2: "referenceBody (lit ''<ul><li>a</li><li>b</li></ul>'') =
      Element (lit ''body'') []
        [Element (lit ''ul'') []
           [Element (lit ''li'') [] [TextNode (lit ''a'')],
            Element (lit ''li'') [] [TextNode (lit ''b'')]]]"
    by (simp add: referenceBody_def)
  have 3: "referenceBody (lit ''<strong>x</strong>'') =
      Element (lit ''body'') [] [Element (lit ''strong'') [] [TextNode (lit ''x'')]]"
    by (simp add: referenceBody_def)
  show ?thesis
    by (rule htmlToMarkdown_reference_equations [OF 1 2 3])
qed

section \<open>Which pages a strategy handles: the domain tests\<close>

lemmas example_defs = examplePlatform_def hostOfHttps_def getDomain_def plainPage_def
  ldPage_def blockPage_def exampleJSON_def

text \<open>
  C8, as the code has it. With the domain of a URL being its host name without a leading
  \<^verbatim>\<open>www.\<close>: the LinkedIn strategy handles a URL exactly when the domain is a member of
  its domain list and the URL contains \<^verbatim>\<open>/jobs/\<close>; the Indeed strategy exactly when the
  domain contains the text \<^verbatim>\<open>indeed\<close>, and the WelcomeToTheJungle strategy exactly when it
  contains \<^verbatim>\<open>welcometothejungle\<close>. Every domain of the two lists is therefore handled, and
  so is any other domain that contains the text.
\<close>

theorem canHandle_domain_tests:
  "(linkedin_canHandle P url \<longleftrightarrow>
      List.member linkedin_domains (getDomain P url) \<and> includes url (lit ''/jobs/''))
   \<and> (indeed_canHandle P url \<longleftrightarrow> includes (getDomain P url) (lit ''indeed''))
   \<and> (wttj_canHandle P url \<longleftrightarrow> includes (getDomain P url) (lit ''welcometothejungle''))
   \<and> (List.member indeed_domains (getDomain P url) \<longrightarrow> indeed_canHandle P url)
   \<and> (List.member wttj_domains (getDomain P url) \<longrightarrow> wttj_canHandle P url)"
proof -
  have "includes d (lit ''indeed'')" if "List.member indeed_domains d" for d
    using that by (auto simp: indeed_domains_def)
  moreover have "includes d (lit ''welcometothejungle'')" if "List.member wttj_domains d" for d
    using that by (auto simp: wttj_domains_def)
  ultimately show ?thesis
    by (simp add: linkedin_canHandle_def indeed_canHandle_def wttj_canHandle_def
        indeed_domains_def wttj_domains_def)
qed

theorem canHandle_domain_tests_witness:
  "linkedin_canHandle examplePlatform (lit ''https://www.linkedin.com/jobs/view/123'')
   \<and> getDomain examplePlatform (lit ''https://www.indeed.fr/viewjob?jk=1'') = lit ''indeed.fr''
   \<and> indeed_canHandle examplePlatform (lit ''https://www.indeed.fr/viewjob?jk=1'')
   \<and> indeed_canHandle examplePlatform (lit ''https://example.com/indeed'') = False"
proof -
  have 1: "getDomain examplePlatform (lit ''https://www.linkedin.com/jobs/view/123'')
      = lit ''linkedin.com''"
    by (simp add: example_defs)
  have 2: "getDomain examplePlatform (lit ''https://www.indeed.fr/viewjob?jk=1'')
      = lit ''indeed.fr''"
    by (simp add: example_defs)
  have 3: "getDomain examplePlatform (lit ''https://example.com/indeed'') = lit ''example.com''"
    by (simp add: example_defs)
  have 4: "List.member linkedin_domains (lit ''linkedin.com'')"
    by (simp add: linkedin_domains_def)
  have 5: "List.member indeed_domains (lit ''indeed.fr'')"
    by (simp add: indeed_domains_def)
  have 6: "includes (lit ''https://www.linkedin.com/jobs/view/123'') (lit ''/jobs/'')"
    by simp
  have 7: "\<not> includes (lit ''example.com'') (lit ''indeed'')"
    by simp
  from canHandle_domain_tests [of examplePlatform "lit ''https://www.linkedin.com/jobs/view/123''"]
    1 4 6
  have a: "linkedin_canHandle examplePlatform (lit ''https://www.linkedin.com/jobs/view/123'')"
    by simp
  from canHandle_domain_tests [of examplePlatform "lit ''https://www.indeed.fr/viewjob?jk=1''"]
    2 5
  have b: "indeed_canHandle examplePlatform (lit ''https://www.indeed.fr/viewjob?jk=1'')"
    by simp
  from canHandle_domain_tests [of examplePlatform "lit ''https://example.com/indeed''"] 3 7
  have c: "indeed_canHandle examplePlatform (lit ''https://example.com/indeed'') = False"
    by simp
  from a 2 b c show ?thesis by simp
qed

text \<open>
  The domain \<^verbatim>\<open>fr.indeed.com\<close> is not in the domain list of the Indeed strategy, and the
  strategy handles it.
\<close>

theorem indeed_canHandle_counterexample:
  "\<not> List.member indeed_domains
        (getDomain examplePlatform (lit ''https://fr.indeed.com/viewjob?jk=1''))
   \<and> indeed_canHandle examplePlatform (lit ''https://fr.indeed.com/viewjob?jk=1'')"
  by (simp add: example_defs indeed_canHandle_def indeed_domains_def)

section \<open>The page classifier\<close>













lemma isKnownJobSite_iff: "isKnownJobSite domain \<longleftrightarrow> list_ex (includes domain) jobSiteDomains"
  by (simp add: isKnownJobSite_def jobSiteDomains_def)



lemmas score_defs = heuristicScore_def urlKeywordHits_def titleKeywordHit_def
  jobElementHit_def embeddedJobPosting_def postingWithinReach_def holdsPosting_def
  unreadable_def urlKeywords_def titleKeywords_def jobElementSelectors_def
  jsonLdSelector_def toLowerCase_def lowerUnit_def exampleLd_def bareLd_def graphLd_def
  nullFirstLd_def exampleLdText_def bareLdText_def graphLdText_def nullFirstLdText_def

lemmas url_defs = isJobPage_def isKnownJobSite_def jobSiteDomains_def hasJobPath_def
  pathIndicators_def hasJobUrl_def reJobsView_def reSlugAfter_def isSlugChar_def
  runLength_def isDigit_def asciiLower_def toLowerCase_def lowerUnit_def




text \<open>
  C10, as the code has it. The code compares the job path segments with the lower-cased
  URL. On a domain that contains a name of the allow-list, when the URL contains none of
  the six job path segments in any letter case and matches none of the four job URL
  patterns, the page is not a job page, whatever the document holds: the heuristic score
  is not consulted.
\<close>

theorem isJobPage_known_site_without_job_url:
  assumes "list_ex (includes (getDomain P url)) jobSiteDomains"
      and "\<not> includes (toLowerCase url) (lit ''/jobs/'')"
      and "\<not> includes (toLowerCase url) (lit ''/job/'')"
      and "\<not> includes (toLowerCase url) (lit ''/offre/'')"
      and "\<not> includes (toLowerCase url) (lit ''/emploi/'')"
      and "\<not> includes (toLowerCase url) (lit ''/career/'')"
      and "\<not> includes (toLowerCase url) (lit ''/carriere/'')"
      and "\<not> hasJobUrl url"
  shows "isJobPage P url doc = False"
  using assms by (simp add: isJobPage_def hasJobPath_def pathIndicators_def isKnownJobSite_iff)

theorem isJobPage_known_site_without_job_url_witness:
  "heuristicScore examplePlatform (lit ''https://www.linkedin.com/feed/'')
     (ldPage (lit ''Software Engineer'')) = 7
   \<and> isJobPage examplePlatform (lit ''https://www.linkedin.com/feed/'')
       (ldPage (lit ''Software Engineer'')) = False"
proof -
  let ?P = examplePlatform
  let ?u = "lit ''https://www.linkedin.com/feed/''"
  let ?d = "ldPage (lit ''Software Engineer'')"
  have k: "list_ex (includes (getDomain ?P ?u)) jobSiteDomains"
    by (simp add: example_defs jobSiteDomains_def)
  have l: "toLowerCase ?u = ?u"
    by (simp add: toLowerCase_def lowerUnit_def)
  have n: "\<not> hasJobUrl ?u"
    by (simp add: hasJobUrl_def reJobsView_def reSlugAfter_def asciiLower_def)
  have h: "heuristicScore ?P ?u ?d = 7"
    by (simp add: score_defs example_defs)
  have "isJobPage ?P ?u ?d = False"
    by (rule isJobPage_known_site_without_job_url [OF k _ _ _ _ _ _ n])
      (simp_all add: toLowerCase_def lowerUnit_def)
  with h show ?thesis by simp
qed

text \<open>
  The URL \<^verbatim>\<open>https://www.linkedin.com/JOBS/x\<close>, on a domain of the allow-list, contains
  none of the six segments as they are written and matches none of the four patterns,
  and it is a job page: lower-cased, it contains \<^verbatim>\<open>/jobs/\<close>.
\<close>

theorem isJobPage_capital_segment_counterexample:
  "List.member jobSiteDomains (getDomain examplePlatform (lit ''https://www.linkedin.com/JOBS/x''))
   \<and> \<not> list_ex (includes (lit ''https://www.linkedin.com/JOBS/x'')) pathIndicators
   \<and> \<not> hasJobUrl (lit ''https://www.linkedin.com/JOBS/x'')
   \<and> isJobPage examplePlatform (lit ''https://www.linkedin.com/JOBS/x'') (plainPage [])"
proof -
  let ?u = "lit ''https://www.linkedin.com/JOBS/x''"
  have 1: "getDomain examplePlatform ?u = lit ''linkedin.com''"
    by (simp add: example_defs)
  have 2: "List.member jobSiteDomains (lit ''linkedin.com'')"
    by (simp add: jobSiteDomains_def)
  have 3: "\<not> list_ex (includes ?u) pathIndicators"
    by (simp add: pathIndicators_def)
  have 4: "\<not> hasJobUrl ?u"
    by (simp add: hasJobUrl_def reJobsView_def reSlugAfter_def asciiLower_def)
  have 5: "isJobPage examplePlatform ?u (plainPage [])"
    unfolding isJobPage_def 1 by (simp add: url_defs)
  from 1 2 3 4 5 show ?thesis by simp
qed

end
